theory Spec2Isabelle
  imports Complex_Main "HOL-Library.Word"
begin

section \<open>Data model of the cell manager\<close>

text \<open>
  The development embeds \<^verbatim>\<open>src/cell_manager.cpp\<close>. C++ \<^verbatim>\<open>float\<close> values are
  real numbers: the functions below only copy them or store the constants \<^verbatim>\<open>0.0f\<close> and
  \<^verbatim>\<open>1.0f\<close>, which are exact; no floating-point arithmetic is modelled.
  Host \<^verbatim>\<open>int\<close> variables are mathematical integers (no count comes near the 32-bit
  limit); the device counters are 32-bit words, read into an \<^verbatim>\<open>int\<close> as two's complement.
\<close>

datatype vec3 = Vec3 (x3: real) (y3: real) (z3: real)

datatype vec4 = Vec4 (x4: real) (y4: real) (z4: real) (w4: real)

text \<open>
  Modelled from the spec: the declaration of \<^verbatim>\<open>ComputeCell\<close> lives in
  \<^verbatim>\<open>cell_manager.h\<close>, which is not part of the sources. The fields are the ones the
  data model of the specification lists and the source file reads or writes.
\<close>

record ComputeCell =
  positionAndMass :: vec4
  velocity :: vec4
  acceleration :: vec4
  orientation :: vec4
  age :: real
  splitTimer :: real
  modeIndex :: int

text \<open>\<^verbatim>\<open>ComputeCell{}\<close>: value initialisation, every member zero.\<close>

definition zeroVec4 :: vec4 where
  "zeroVec4 = Vec4 0 0 0 0"

definition zeroCell :: ComputeCell where
  "zeroCell = \<lparr>positionAndMass = zeroVec4, velocity = zeroVec4, acceleration = zeroVec4,
     orientation = zeroVec4, age = 0, splitTimer = 0, modeIndex = 0\<rparr>"

text \<open>
  Modelled from the spec: the mode record \<^verbatim>\<open>GPUMode\<close> (declared in a header that is not
  part of the sources), with the members \<^verbatim>\<open>addGenomeToBuffer\<close> fills in.
\<close>

record GPUMode =
  color :: vec4
  splitInterval :: real
  genomeOffset :: int
  splitOrientation :: "real \<times> real"
  childModes :: "int \<times> int"

text \<open>The selection cache \<^verbatim>\<open>selectedCell\<close>, with the members the source file uses.\<close>

record SelectedCellInfo =
  cellIndex :: int
  cellData :: ComputeCell
  isValid :: bool
  dragDistance :: real
  dragOffset :: vec3

text \<open>\<^verbatim>\<open>GLuint cellBuffer[3]\<close>: an array of exactly three buffers.\<close>

datatype 'a array3 = Array3 'a 'a 'a

fun get3 :: "'a array3 \<Rightarrow> nat \<Rightarrow> 'a" where
  "get3 (Array3 a b c) i = (if i = 0 then a else if i = 1 then b else c)"

fun set3 :: "'a array3 \<Rightarrow> nat \<Rightarrow> 'a \<Rightarrow> 'a array3" where
  "set3 (Array3 a b c) i v =
     (if i = 0 then Array3 v b c else if i = 1 then Array3 a v c else Array3 a b v)"

fun map3 :: "('a \<Rightarrow> 'b) \<Rightarrow> 'a array3 \<Rightarrow> 'b array3" where
  "map3 f (Array3 a b c) = Array3 (f a) (f b) (f c)"

text \<open>
  Device memory: the buffers a compute dispatch can be bound to. The counter buffer
  \<^verbatim>\<open>gpuCellCountBuffer\<close> is two \<^verbatim>\<open>GLuint\<close>: the live count at byte offset 0 and the
  pending count at byte offset 4. Buffers of records are lists whose length is the
  capacity the buffer was allocated with.
\<close>

type_synonym countPair = "32 word \<times> 32 word"

record Device =
  cellBuffer :: "ComputeCell list array3"
  instanceBuffer :: "vec4 list"
  modeBuffer :: "GPUMode list"
  gpuCellCountBuffer :: countPair
  cellAdditionBuffer :: "ComputeCell list"
  gridBuffer :: "32 word list"
  gridCountBuffer :: "32 word list"
  gridOffsetBuffer :: "32 word list"

text \<open>
  The host object. \<^verbatim>\<open>stagingCellCountBuffer\<close> is the persistently mapped mirror of the
  counter pair; \<^verbatim>\<open>countPtr[0]\<close> and \<^verbatim>\<open>countPtr[1]\<close> read its two components.
\<close>

record CellManager =
  cpuCells :: "ComputeCell list"
  cellStagingBuffer :: "ComputeCell list"
  cellCount :: int
  cpuPendingCellCount :: int
  gpuPendingCellCount :: int
  bufferRotation :: int
  selectedCell :: SelectedCellInfo
  isDraggingCell :: bool
  device :: Device
  stagingCellCountBuffer :: countPair

text \<open>
  The constants of \<^verbatim>\<open>config.h\<close> (not part of the sources) are parameters of the model.
\<close>

record Config =
  MAX_CELLS :: int
  GRID_RESOLUTION :: int
  GRID_CELL_SIZE :: real
  WORLD_SIZE :: real
  MAX_CELLS_PER_GRID :: int
  TOTAL_GRID_CELLS :: int

section \<open>Actions and the sequencing of statements\<close>

datatype shaderId =
  PhysicsShader | UpdateShader | InternalUpdateShader | CellAdditionShader
  | GridClearShader | GridAssignShader | GridPrefixSumShader | GridInsertShader

datatype bufferId =
  CellBuffer nat | InstanceBuffer | ModeBuffer | GpuCellCountBuffer | StagingCellCountBuffer
  | CellAdditionBuffer | GridBuffer | GridCountBuffer | GridOffsetBuffer

datatype uniformValue = IntU int | FloatU real

datatype message =
  AddingCells int int int
  | MaxCellsWarning
  | SplitEvent int int
  | ResetMessage

text \<open>
  What a call of the driver does besides changing the state, in program order: console
  output, the OpenGL calls that read, write or order device memory, and the rotation of
  the cell buffers. A dispatch records the shader, the uniforms set for it, the buffers
  bound to it and the number of work groups.
\<close>

datatype action =
  Print message
  | Dispatch shaderId "(string \<times> uniformValue) list" "bufferId list" int
  | MemoryBarrier
  | BufferSubData bufferId int int
  | GlInvalidValue bufferId int int
  | CopyCounters
  | ClearBufferData bufferId
  | RotateBuffers

type_synonym prog = "CellManager \<Rightarrow> action list \<times> CellManager"

definition skip :: prog where
  "skip = (\<lambda>s. ([], s))"

definition emit :: "action \<Rightarrow> prog" where
  "emit a = (\<lambda>s. ([a], s))"

definition modify :: "(CellManager \<Rightarrow> CellManager) \<Rightarrow> prog" where
  "modify f = (\<lambda>s. ([], f s))"

definition seq :: "prog \<Rightarrow> prog \<Rightarrow> prog" where
  "seq p q = (\<lambda>s. case p s of (t1, s1) \<Rightarrow> (case q s1 of (t2, s2) \<Rightarrow> (t1 @ t2, s2)))"

fun seqs :: "prog list \<Rightarrow> prog" where
  "seqs [] = skip"
| "seqs (p # ps) = seq p (seqs ps)"

definition ifThen :: "(CellManager \<Rightarrow> bool) \<Rightarrow> prog \<Rightarrow> prog" where
  "ifThen b p = (\<lambda>s. if b s then p s else ([], s))"

section \<open>Buffer primitives\<close>

text \<open>
  \<^verbatim>\<open>glNamedBufferSubData\<close> on a buffer of records, offset and size counted in records.
  A range that is negative or runs past the end of the buffer is the OpenGL error
  \<^verbatim>\<open>GL_INVALID_VALUE\<close> and writes nothing.
\<close>

definition subData :: "'a list \<Rightarrow> int \<Rightarrow> 'a list \<Rightarrow> 'a list option" where
  "subData buf off xs =
     (if off < 0 \<or> off + int (length xs) > int (length buf) then None
      else Some (take (nat off) buf @ xs @ drop (nat off + length xs) buf))"

text \<open>\<^verbatim>\<open>glClearNamedBufferData(buffer, GL_R32UI, ..., nullptr)\<close>: zero-fill, same size.\<close>

definition clearData :: "'a \<Rightarrow> 'a list \<Rightarrow> 'a list" where
  "clearData z buf = replicate (length buf) z"

text \<open>
  \<^verbatim>\<open>glCopyNamedBufferSubData(gpuCellCountBuffer, stagingCellCountBuffer, 0, 0, 2 * sizeof(GLuint))\<close>.
\<close>

definition copyCounters :: prog where
  "copyCounters =
     seq (emit CopyCounters)
       (modify (\<lambda>s. s\<lparr>stagingCellCountBuffer := gpuCellCountBuffer (device s)\<rparr>))"

text \<open>Upload of one record at slot \<open>i\<close> of \<^verbatim>\<open>cellBuffer[b]\<close>.\<close>

definition uploadCell :: "nat \<Rightarrow> int \<Rightarrow> ComputeCell \<Rightarrow> prog" where
  "uploadCell b i c = (\<lambda>s.
     case subData (get3 (cellBuffer (device s)) b) i [c] of
       None \<Rightarrow> ([GlInvalidValue (CellBuffer b) i 1], s)
     | Some buf \<Rightarrow>
         ([BufferSubData (CellBuffer b) i 1],
          s\<lparr>device := (device s)\<lparr>cellBuffer := set3 (cellBuffer (device s)) b buf\<rparr>\<rparr>))"

section \<open>Host ingress\<close>

text \<open>
  \<^verbatim>\<open>addCellToStagingBuffer\<close>: reject with a warning when the count is at the limit,
  otherwise store a copy whose \<^verbatim>\<open>positionAndMass.w\<close> is overwritten with \<^verbatim>\<open>1.0f\<close>.
\<close>

definition correctedCell :: "ComputeCell \<Rightarrow> ComputeCell" where
  "correctedCell newCell =
     newCell\<lparr>positionAndMass :=
       (case positionAndMass newCell of Vec4 x y z w \<Rightarrow> Vec4 x y z 1)\<rparr>"

definition addCellToStagingBuffer :: "Config \<Rightarrow> ComputeCell \<Rightarrow> prog" where
  "addCellToStagingBuffer cfg newCell = (\<lambda>s.
     if cellCount s + 1 > MAX_CELLS cfg then emit (Print MaxCellsWarning) s
     else modify (\<lambda>s. s\<lparr>cellStagingBuffer := cellStagingBuffer s @ [correctedCell newCell],
                          cpuCells := cpuCells s @ [correctedCell newCell],
                          cpuPendingCellCount := cpuPendingCellCount s + 1\<rparr>) s)"

text \<open>Write of one \<^verbatim>\<open>GLuint\<close> of the device counter pair (index 0 or 1).\<close>

definition writeCounter :: "nat \<Rightarrow> 32 word \<Rightarrow> prog" where
  "writeCounter i v =
     seq (emit (BufferSubData GpuCellCountBuffer (int i) 1))
       (modify (\<lambda>s. s\<lparr>device := (device s)\<lparr>gpuCellCountBuffer :=
          (case gpuCellCountBuffer (device s) of (live, pending) \<Rightarrow>
             if i = 0 then (v, pending) else (live, v))\<rparr>\<rparr>))"

text \<open>Upload of a batch into the addition queue, starting at record \<open>off\<close>.\<close>

definition uploadAdditions :: "int \<Rightarrow> ComputeCell list \<Rightarrow> prog" where
  "uploadAdditions off cells = (\<lambda>s.
     case subData (cellAdditionBuffer (device s)) off cells of
       None \<Rightarrow> ([GlInvalidValue CellAdditionBuffer off (int (length cells))], s)
     | Some buf \<Rightarrow>
         ([BufferSubData CellAdditionBuffer off (int (length cells))],
          s\<lparr>device := (device s)\<lparr>cellAdditionBuffer := buf\<rparr>\<rparr>))"

text \<open>
  \<^verbatim>\<open>addCellsToGPUBuffer\<close>: the batch is refused when the live count plus the batch
  exceeds \<^verbatim>\<open>MAX_CELLS\<close>; otherwise it is uploaded behind the pending records and the
  pending count is raised on the host, on the device and in the mirror.
\<close>

definition addCellsToGPUBuffer :: "Config \<Rightarrow> ComputeCell list \<Rightarrow> prog" where
  "addCellsToGPUBuffer cfg cells = (\<lambda>s.
     let newCellCount = int (length cells) in
     seq (emit (Print (AddingCells newCellCount (cellCount s) (cellCount s + newCellCount))))
       (if cellCount s + newCellCount > MAX_CELLS cfg then emit (Print MaxCellsWarning)
        else seqs
          [uploadAdditions (gpuPendingCellCount s) cells,
           modify (\<lambda>s. s\<lparr>gpuPendingCellCount := gpuPendingCellCount s + newCellCount\<rparr>),
           (\<lambda>s. writeCounter 1 (word_of_int (gpuPendingCellCount s)) s),
           copyCounters]) s)"

definition addStagedCellsToGPUBuffer :: "Config \<Rightarrow> prog" where
  "addStagedCellsToGPUBuffer cfg = (\<lambda>s.
     if cellStagingBuffer s \<noteq> [] then
       seqs [addCellsToGPUBuffer cfg (cellStagingBuffer s),
             modify (\<lambda>s. s\<lparr>cellStagingBuffer := [], cpuPendingCellCount := 0\<rparr>)] s
     else skip s)"

section \<open>The CPU mirror\<close>

text \<open>
  \<^verbatim>\<open>std::vector::operator[]\<close> does not check its index: outside the vector the
  behaviour is undefined, which the model records as a fault.
\<close>

datatype fault = OutOfBounds

definition vectorAt :: "'a list \<Rightarrow> int \<Rightarrow> fault + 'a" where
  "vectorAt xs i = (if 0 \<le> i \<and> i < int (length xs) then Inr (xs ! nat i) else Inl OutOfBounds)"

definition vectorSet :: "'a list \<Rightarrow> int \<Rightarrow> 'a \<Rightarrow> fault + 'a list" where
  "vectorSet xs i v =
     (if 0 \<le> i \<and> i < int (length xs) then Inr (xs[nat i := v]) else Inl OutOfBounds)"

definition getCellData :: "int \<Rightarrow> CellManager \<Rightarrow> fault + ComputeCell" where
  "getCellData index s =
     (if index \<ge> 0 \<and> index < cellCount s then vectorAt (cpuCells s) index
      else Inr zeroCell)"

definition updateCellData ::
  "int \<Rightarrow> ComputeCell \<Rightarrow> CellManager \<Rightarrow> fault + (action list \<times> CellManager)" where
  "updateCellData index newData s =
     (if index \<ge> 0 \<and> index < cellCount s then
        (case vectorSet (cpuCells s) index newData of
           Inl e \<Rightarrow> Inl e
         | Inr cells \<Rightarrow>
             let s1 = s\<lparr>cpuCells := cells\<rparr>;
                 s2 = (if isValid (selectedCell s1) \<and> cellIndex (selectedCell s1) = index
                       then s1\<lparr>selectedCell := (selectedCell s1)\<lparr>cellData := newData\<rparr>\<rparr>
                       else s1)
             in Inr (seqs (map (\<lambda>i. uploadCell i index (cells ! nat index)) [0..<2]) s2))
      else Inr ([], s))"

section \<open>Selection and dragging\<close>

definition clearSelection :: prog where
  "clearSelection =
     modify (\<lambda>s. s\<lparr>selectedCell := (selectedCell s)\<lparr>cellIndex := - 1, isValid := False\<rparr>,
                   isDraggingCell := False\<rparr>)"

definition draggedCell :: "vec3 \<Rightarrow> ComputeCell \<Rightarrow> ComputeCell" where
  "draggedCell newWorldPosition c =
     c\<lparr>positionAndMass :=
          Vec4 (x3 newWorldPosition) (y3 newWorldPosition) (z3 newWorldPosition)
            (w4 (positionAndMass c)),
       velocity := Vec4 0 0 0 (w4 (velocity c))\<rparr>"

definition dragSelectedCell ::
  "vec3 \<Rightarrow> CellManager \<Rightarrow> fault + (action list \<times> CellManager)" where
  "dragSelectedCell newWorldPosition s =
     (if \<not> isValid (selectedCell s) then Inr ([], s)
      else
        let index = cellIndex (selectedCell s) in
        (case vectorAt (cpuCells s) index of
           Inl e \<Rightarrow> Inl e
         | Inr c \<Rightarrow>
             let c' = draggedCell newWorldPosition c;
                 s1 = s\<lparr>cpuCells := (cpuCells s)[nat index := c'],
                        selectedCell := (selectedCell s)\<lparr>cellData := c'\<rparr>\<rparr>
             in Inr (seqs (map (\<lambda>i. uploadCell i index c') [0..<3]) s1)))"

section \<open>Compute dispatches\<close>

text \<open>
  The shader sources are not part of the sources. A dispatch is an unknown function of
  device memory, determined by the shader, its uniforms, its bindings and the number of
  work groups; every result below holds for all such functions.
\<close>

type_synonym kernels =
  "shaderId \<Rightarrow> (string \<times> uniformValue) list \<Rightarrow> bufferId list \<Rightarrow> int \<Rightarrow> Device \<Rightarrow> Device"

definition dispatch ::
  "kernels \<Rightarrow> shaderId \<Rightarrow> (string \<times> uniformValue) list \<Rightarrow> bufferId list \<Rightarrow> int \<Rightarrow> prog" where
  "dispatch K sh us bs n =
     seq (emit (Dispatch sh us bs n)) (modify (\<lambda>s. s\<lparr>device := K sh us bs n (device s)\<rparr>))"

text \<open>C++ integer division truncates towards zero.\<close>

definition cdiv :: "int \<Rightarrow> int \<Rightarrow> int" where
  "cdiv a b = sgn a * sgn b * (\<bar>a\<bar> div \<bar>b\<bar>)"

text \<open>
  Modelled from the spec: \<^verbatim>\<open>getCellReadBuffer\<close>, \<^verbatim>\<open>getCellWriteBuffer\<close> and
  \<^verbatim>\<open>rotateBuffers\<close> are defined in \<^verbatim>\<open>cell_manager.h\<close>, which is not part of the sources.
  With rotation \<open>r\<close> the read view is buffer \<open>r\<close>, the write view is buffer
  \<open>(r + 1) mod 3\<close>, and rotating sets \<open>r\<close> to \<open>(r + 1) mod 3\<close>.
\<close>

definition getCellReadBuffer :: "CellManager \<Rightarrow> bufferId" where
  "getCellReadBuffer s = CellBuffer (nat (bufferRotation s))"

definition getCellWriteBuffer :: "CellManager \<Rightarrow> bufferId" where
  "getCellWriteBuffer s = CellBuffer (nat ((bufferRotation s + 1) mod 3))"

definition rotateBuffers :: prog where
  "rotateBuffers =
     seq (emit RotateBuffers)
       (modify (\<lambda>s. s\<lparr>bufferRotation := (bufferRotation s + 1) mod 3\<rparr>))"

definition runGridClear :: "kernels \<Rightarrow> Config \<Rightarrow> prog" where
  "runGridClear K cfg =
     dispatch K GridClearShader [(''u_totalGridCells'', IntU (TOTAL_GRID_CELLS cfg))]
       [GridCountBuffer] (cdiv (TOTAL_GRID_CELLS cfg + 63) 64)"

definition runGridAssign :: "kernels \<Rightarrow> Config \<Rightarrow> prog" where
  "runGridAssign K cfg = (\<lambda>s.
     dispatch K GridAssignShader
       [(''u_gridResolution'', IntU (GRID_RESOLUTION cfg)),
        (''u_gridCellSize'', FloatU (GRID_CELL_SIZE cfg)),
        (''u_worldSize'', FloatU (WORLD_SIZE cfg))]
       [getCellReadBuffer s, GridCountBuffer, GpuCellCountBuffer]
       (cdiv (cellCount s + 63) 64) s)"

definition runGridPrefixSum :: "kernels \<Rightarrow> Config \<Rightarrow> prog" where
  "runGridPrefixSum K cfg =
     dispatch K GridPrefixSumShader [(''u_totalGridCells'', IntU (TOTAL_GRID_CELLS cfg))]
       [GridCountBuffer, GridOffsetBuffer] (cdiv (TOTAL_GRID_CELLS cfg + 63) 64)"

definition runGridInsert :: "kernels \<Rightarrow> Config \<Rightarrow> prog" where
  "runGridInsert K cfg = (\<lambda>s.
     dispatch K GridInsertShader
       [(''u_gridResolution'', IntU (GRID_RESOLUTION cfg)),
        (''u_gridCellSize'', FloatU (GRID_CELL_SIZE cfg)),
        (''u_worldSize'', FloatU (WORLD_SIZE cfg)),
        (''u_maxCellsPerGrid'', IntU (MAX_CELLS_PER_GRID cfg))]
       [getCellReadBuffer s, GridBuffer, GridOffsetBuffer, GridCountBuffer, GpuCellCountBuffer]
       (cdiv (cellCount s + 63) 64) s)"

definition updateSpatialGrid :: "kernels \<Rightarrow> Config \<Rightarrow> prog" where
  "updateSpatialGrid K cfg = (\<lambda>s.
     if cellCount s = 0 then skip s
     else seqs
       [runGridClear K cfg, emit MemoryBarrier,
        runGridAssign K cfg, emit MemoryBarrier,
        runGridPrefixSum K cfg, emit MemoryBarrier,
        runGridInsert K cfg, emit MemoryBarrier] s)"

text \<open>The index handed to the physics and the integration shader as \<^verbatim>\<open>u_draggedCellIndex\<close>.\<close>

definition draggedIndex :: "CellManager \<Rightarrow> int" where
  "draggedIndex s =
     (if isDraggingCell s \<and> isValid (selectedCell s) then cellIndex (selectedCell s) else - 1)"

definition runPhysicsCompute :: "kernels \<Rightarrow> Config \<Rightarrow> real \<Rightarrow> prog" where
  "runPhysicsCompute K cfg deltaTime = (\<lambda>s.
     dispatch K PhysicsShader
       [(''u_draggedCellIndex'', IntU (draggedIndex s)),
        (''u_gridResolution'', IntU (GRID_RESOLUTION cfg)),
        (''u_gridCellSize'', FloatU (GRID_CELL_SIZE cfg)),
        (''u_worldSize'', FloatU (WORLD_SIZE cfg)),
        (''u_maxCellsPerGrid'', IntU (MAX_CELLS_PER_GRID cfg))]
       [getCellReadBuffer s, GridBuffer, GridCountBuffer, getCellWriteBuffer s,
        GpuCellCountBuffer]
       (cdiv (cellCount s + 63) 64) s)"

text \<open>The damping \<^verbatim>\<open>0.98f\<close> is the binary32 value \<open>16441672 / 2\<^sup>2\<^sup>4\<close>.\<close>

definition runUpdateCompute :: "kernels \<Rightarrow> real \<Rightarrow> prog" where
  "runUpdateCompute K deltaTime = (\<lambda>s.
     dispatch K UpdateShader
       [(''u_deltaTime'', FloatU deltaTime),
        (''u_damping'', FloatU (16441672 / 16777216)),
        (''u_draggedCellIndex'', IntU (draggedIndex s))]
       [getCellWriteBuffer s, GpuCellCountBuffer]
       (cdiv (cellCount s + 63) 64) s)"

definition runInternalUpdateCompute :: "kernels \<Rightarrow> Config \<Rightarrow> real \<Rightarrow> prog" where
  "runInternalUpdateCompute K cfg deltaTime = (\<lambda>s.
     dispatch K InternalUpdateShader
       [(''u_deltaTime'', FloatU deltaTime),
        (''u_maxCells'', IntU (MAX_CELLS cfg))]
       [ModeBuffer, getCellWriteBuffer s, CellAdditionBuffer, GpuCellCountBuffer]
       (cdiv (cellCount s + 63) 64) s)"

definition applyCellAdditions :: "kernels \<Rightarrow> Config \<Rightarrow> prog" where
  "applyCellAdditions K cfg = (\<lambda>s.
     seqs
       [dispatch K CellAdditionShader [(''u_maxCells'', IntU (MAX_CELLS cfg))]
          [CellAdditionBuffer, getCellReadBuffer s, getCellWriteBuffer s, GpuCellCountBuffer]
          (cdiv (cdiv (MAX_CELLS cfg) 2 + 63) 64),
        emit MemoryBarrier,
        writeCounter 1 0,
        copyCounters] s)"

section \<open>The frame driver\<close>

definition updateCells :: "kernels \<Rightarrow> Config \<Rightarrow> real \<Rightarrow> prog" where
  "updateCells K cfg deltaTime =
     seqs
       [copyCounters,
        modify (\<lambda>s. s\<lparr>cellCount := sint (fst (stagingCellCountBuffer s)),
                      gpuPendingCellCount := sint (snd (stagingCellCountBuffer s))\<rparr>),
        (\<lambda>s0. let previousCellCount = cellCount s0 in
           seqs
             [ifThen (\<lambda>s. cpuPendingCellCount s > 0) (addStagedCellsToGPUBuffer cfg),
              ifThen (\<lambda>s. cellCount s > 0)
                (seqs
                   [updateSpatialGrid K cfg, emit MemoryBarrier,
                    runPhysicsCompute K cfg deltaTime, emit MemoryBarrier,
                    runUpdateCompute K deltaTime, emit MemoryBarrier,
                    runInternalUpdateCompute K cfg deltaTime, emit MemoryBarrier]),
              copyCounters,
              modify (\<lambda>s. s\<lparr>gpuPendingCellCount := sint (snd (stagingCellCountBuffer s))\<rparr>),
              applyCellAdditions K cfg,
              emit MemoryBarrier,
              modify (\<lambda>s. s\<lparr>cellCount := sint (fst (stagingCellCountBuffer s))\<rparr>),
              ifThen (\<lambda>s. cellCount s > previousCellCount)
                (\<lambda>s. emit (Print (SplitEvent previousCellCount (cellCount s))) s),
              rotateBuffers] s0)]"

section \<open>Reset\<close>

definition clearCellBuffer :: "nat \<Rightarrow> prog" where
  "clearCellBuffer i =
     seq (emit (ClearBufferData (CellBuffer i)))
       (modify (\<lambda>s. s\<lparr>device := (device s)\<lparr>cellBuffer :=
          set3 (cellBuffer (device s)) i
            (clearData zeroCell (get3 (cellBuffer (device s)) i))\<rparr>\<rparr>))"

definition clearDevice :: "bufferId \<Rightarrow> (Device \<Rightarrow> Device) \<Rightarrow> prog" where
  "clearDevice b f = seq (emit (ClearBufferData b)) (modify (\<lambda>s. s\<lparr>device := f (device s)\<rparr>))"

definition resetSimulation :: prog where
  "resetSimulation =
     seqs
       [modify (\<lambda>s. s\<lparr>cpuCells := [], cellStagingBuffer := [], cellCount := 0,
                      cpuPendingCellCount := 0, gpuPendingCellCount := 0,
                      bufferRotation := 0\<rparr>),
        clearSelection,
        writeCounter 0 0,
        writeCounter 1 0,
        seqs (map clearCellBuffer [0..<3]),
        clearDevice InstanceBuffer
          (\<lambda>d. d\<lparr>instanceBuffer := clearData zeroVec4 (instanceBuffer d)\<rparr>),
        clearDevice CellAdditionBuffer
          (\<lambda>d. d\<lparr>cellAdditionBuffer := clearData zeroCell (cellAdditionBuffer d)\<rparr>),
        clearDevice GridBuffer (\<lambda>d. d\<lparr>gridBuffer := clearData 0 (gridBuffer d)\<rparr>),
        clearDevice GridCountBuffer (\<lambda>d. d\<lparr>gridCountBuffer := clearData 0 (gridCountBuffer d)\<rparr>),
        clearDevice GridOffsetBuffer
          (\<lambda>d. d\<lparr>gridOffsetBuffer := clearData 0 (gridOffsetBuffer d)\<rparr>),
        copyCounters,
        emit (Print ResetMessage)]"

section \<open>Reading a trace\<close>

fun shaderOf :: "action \<Rightarrow> shaderId list" where
  "shaderOf (Dispatch sh us bs n) = [sh]"
| "shaderOf a = []"

text \<open>The shaders a trace dispatches, in order.\<close>

definition dispatchOrder :: "action list \<Rightarrow> shaderId list" where
  "dispatchOrder tr = concat (map shaderOf tr)"

text \<open>The grid, physics, integration and internal stages of a frame.\<close>

definition stageShaders :: "shaderId list" where
  "stageShaders =
     [GridClearShader, GridAssignShader, GridPrefixSumShader, GridInsertShader,
      PhysicsShader, UpdateShader, InternalUpdateShader]"

text \<open>
  The addition-apply dispatch runs before the stages: some apply dispatch comes before
  the first dispatch of a stage.
\<close>

definition applyBeforeStages :: "action list \<Rightarrow> bool" where
  "applyBeforeStages tr =
     (CellAdditionShader \<in> set (takeWhile (\<lambda>sh. sh \<notin> set stageShaders) (dispatchOrder tr)))"

text \<open>The uniforms a trace hands to a shader, one list for each of its dispatches.\<close>

fun uniformsOf :: "shaderId \<Rightarrow> action \<Rightarrow> (string \<times> uniformValue) list list" where
  "uniformsOf sh (Dispatch sh' us bs n) = (if sh' = sh then [us] else [])"
| "uniformsOf sh a = []"

definition uniformsFor :: "shaderId \<Rightarrow> action list \<Rightarrow> (string \<times> uniformValue) list list" where
  "uniformsFor sh tr = concat (map (uniformsOf sh) tr)"

section \<open>Concrete states\<close>

text \<open>
  The buffers as \<^verbatim>\<open>initializeGPUBuffers\<close> and \<^verbatim>\<open>initializeSpatialGrid\<close> allocate them
  (capacities in records), zero-filled as \<^verbatim>\<open>resetSimulation\<close> leaves them, and the host
  object with no cell and no selection.
\<close>

definition zeroMode :: GPUMode where
  "zeroMode = \<lparr>color = zeroVec4, splitInterval = 0, genomeOffset = 0,
     splitOrientation = (0, 0), childModes = (0, 0)\<rparr>"

definition initialDevice :: "Config \<Rightarrow> Device" where
  "initialDevice cfg =
     \<lparr>cellBuffer = Array3 (replicate (nat (MAX_CELLS cfg)) zeroCell)
        (replicate (nat (MAX_CELLS cfg)) zeroCell) (replicate (nat (MAX_CELLS cfg)) zeroCell),
      instanceBuffer = replicate (nat (MAX_CELLS cfg * 2)) zeroVec4,
      modeBuffer = replicate (nat (MAX_CELLS cfg)) zeroMode,
      gpuCellCountBuffer = (0, 0),
      cellAdditionBuffer = replicate (nat (cdiv (MAX_CELLS cfg) 2)) zeroCell,
      gridBuffer = replicate (nat (TOTAL_GRID_CELLS cfg * MAX_CELLS_PER_GRID cfg)) 0,
      gridCountBuffer = replicate (nat (TOTAL_GRID_CELLS cfg)) 0,
      gridOffsetBuffer = replicate (nat (TOTAL_GRID_CELLS cfg)) 0\<rparr>"

definition initialManager :: "Config \<Rightarrow> CellManager" where
  "initialManager cfg =
     \<lparr>cpuCells = [], cellStagingBuffer = [], cellCount = 0, cpuPendingCellCount = 0,
      gpuPendingCellCount = 0, bufferRotation = 0,
      selectedCell = \<lparr>cellIndex = - 1, cellData = zeroCell, isValid = False,
        dragDistance = 0, dragOffset = Vec3 0 0 0\<rparr>,
      isDraggingCell = False,
      device = initialDevice cfg,
      stagingCellCountBuffer = (0, 0)\<rparr>"

definition smallConfig :: Config where
  "smallConfig = \<lparr>MAX_CELLS = 4, GRID_RESOLUTION = 2, GRID_CELL_SIZE = 1, WORLD_SIZE = 2,
     MAX_CELLS_PER_GRID = 2, TOTAL_GRID_CELLS = 8\<rparr>"

text \<open>A cell at \<open>(1, 2, 3)\<close> with mass 5 and velocity \<open>(1, 1, 1)\<close>.\<close>

definition sampleCell :: ComputeCell where
  "sampleCell = \<lparr>positionAndMass = Vec4 1 2 3 5, velocity = Vec4 1 1 1 0,
     acceleration = zeroVec4, orientation = Vec4 0 0 0 1, age = 0, splitTimer = 0,
     modeIndex = 0\<rparr>"

text \<open>A shader set that leaves device memory alone.\<close>

definition idleKernels :: kernels where
  "idleKernels = (\<lambda>sh us bs n d. d)"

text \<open>A full manager: the live count has reached a \<^verbatim>\<open>MAX_CELLS\<close> of 4.\<close>

definition fullManager :: CellManager where
  "fullManager = (initialManager smallConfig)\<lparr>cellCount := 4\<rparr>"

text \<open>The host fields a dispatch reads; no upload, copy or dispatch changes them.\<close>

definition hostSame :: "CellManager \<Rightarrow> CellManager \<Rightarrow> bool" where
  "hostSame s s' =
     (cellCount s' = cellCount s \<and> bufferRotation s' = bufferRotation s
      \<and> selectedCell s' = selectedCell s \<and> isDraggingCell s' = isDraggingCell s)"

text \<open>
  One cell in the mirror, selected and being dragged; the buffers have room for four.
\<close>

definition draggingManager :: CellManager where
  "draggingManager = (initialManager smallConfig)
     \<lparr>cpuCells := [sampleCell], cellCount := 1,
      selectedCell := \<lparr>cellIndex = 0, cellData = sampleCell, isValid = True,
        dragDistance = 1, dragOffset = Vec3 0 0 0\<rparr>,
      isDraggingCell := True\<rparr>"

text \<open>
  Modelled from the spec: the addition-apply shader \<^verbatim>\<open>apply_additions.comp\<close> is not part
  of the sources. For each of the pending records of the queue it reserves the index
  \<open>liveCount + j\<close>, copies the record into the read view and the write view (the second
  and third binding) at that index, and raises \<open>liveCount\<close> by the number of records.
  Every other shader is left idle.
\<close>

definition onCellBuffer ::
  "bufferId \<Rightarrow> (ComputeCell list \<Rightarrow> ComputeCell list) \<Rightarrow> ComputeCell list array3
     \<Rightarrow> ComputeCell list array3" where
  "onCellBuffer b f a = (case b of CellBuffer i \<Rightarrow> set3 a i (f (get3 a i)) | _ \<Rightarrow> a)"

definition applyKernels :: kernels where
  "applyKernels sh us bs n d =
     (if sh = CellAdditionShader \<and> length bs = 4 then
        (case gpuCellCountBuffer d of (live, pending) \<Rightarrow>
           let queued = take (unat pending) (cellAdditionBuffer d);
               put = (\<lambda>buf. case subData buf (uint live) queued of
                               None \<Rightarrow> buf | Some buf' \<Rightarrow> buf')
           in d\<lparr>cellBuffer := onCellBuffer (bs ! 2) put (onCellBuffer (bs ! 1) put (cellBuffer d)),
                gpuCellCountBuffer := (live + pending, pending)\<rparr>)
      else d)"

text \<open>
  One cell uploaded with \<^verbatim>\<open>addCellsToGPUBuffer\<close> on a fresh manager, then one frame: the
  device admits the cell and the live count read back is 1, while nothing was added to
  \<^verbatim>\<open>cpuCells\<close>.
\<close>

definition uploadedOne :: CellManager where
  "uploadedOne =
     snd (updateCells applyKernels smallConfig (1 / 60)
       (snd (addCellsToGPUBuffer smallConfig [sampleCell] (initialManager smallConfig))))"

text \<open>A frame starts with one live cell and one pending record on the device.\<close>

definition pendingState :: CellManager where
  "pendingState = (initialManager smallConfig)
     \<lparr>device := (initialDevice smallConfig)\<lparr>gpuCellCountBuffer := (1, 1)\<rparr>\<rparr>"

text \<open>Three cells staged through \<^verbatim>\<open>addCellToStagingBuffer\<close> on a fresh manager.\<close>

definition stagedThree :: CellManager where
  "stagedThree =
     snd (addCellToStagingBuffer smallConfig sampleCell
       (snd (addCellToStagingBuffer smallConfig sampleCell
         (snd (addCellToStagingBuffer smallConfig sampleCell (initialManager smallConfig))))))"

text \<open>The value of \<^verbatim>\<open>u_draggedCellIndex\<close> among the uniforms of a dispatch.\<close>

definition draggedUniform :: "(string \<times> uniformValue) list \<Rightarrow> uniformValue option" where
  "draggedUniform us = map_of us ''u_draggedCellIndex''"

section \<open>Running sequenced statements\<close>

lemma fst_seq: "fst (seq p q s) = fst (p s) @ fst (q (snd (p s)))"
  by (simp add: seq_def split: prod.splits)

lemma snd_seq: "snd (seq p q s) = snd (q (snd (p s)))"
  by (simp add: seq_def split: prod.splits)

lemma fst_emit: "fst (emit a s) = [a]"
  by (simp add: emit_def)

lemma snd_emit: "snd (emit a s) = s"
  by (simp add: emit_def)

lemma fst_modify: "fst (modify f s) = []"
  by (simp add: modify_def)

lemma snd_modify: "snd (modify f s) = f s"
  by (simp add: modify_def)

lemma fst_skip: "fst (skip s) = []"
  by (simp add: skip_def)

lemma snd_skip: "snd (skip s) = s"
  by (simp add: skip_def)

lemma fst_ifThen: "fst (ifThen b p s) = (if b s then fst (p s) else [])"
  by (simp add: ifThen_def)

lemma snd_ifThen: "snd (ifThen b p s) = (if b s then snd (p s) else s)"
  by (simp add: ifThen_def)

lemmas run =
  fst_seq snd_seq fst_emit snd_emit fst_modify snd_modify fst_skip snd_skip fst_ifThen snd_ifThen

lemmas prog_defs = skip_def emit_def modify_def seq_def ifThen_def

section \<open>Host ingress: what is stored, what is refused\<close>

text \<open>
  Claim C3, as amended. An accepted record (\<open>cellCount + 1 \<le> MAX_CELLS\<close>) is appended
  to \<^verbatim>\<open>cellStagingBuffer\<close> and to \<^verbatim>\<open>cpuCells\<close> with \<^verbatim>\<open>positionAndMass.w\<close> set to 1,
  whatever value the caller supplied there; the position and every other member are the
  caller's.
\<close>

theorem addCellToStagingBuffer_forces_w:
  assumes "cellCount s + 1 \<le> MAX_CELLS cfg"
  shows "cellStagingBuffer (snd (addCellToStagingBuffer cfg newCell s))
           = cellStagingBuffer s @ [correctedCell newCell]
     \<and> cpuCells (snd (addCellToStagingBuffer cfg newCell s))
           = cpuCells s @ [correctedCell newCell]
     \<and> cpuPendingCellCount (snd (addCellToStagingBuffer cfg newCell s))
           = cpuPendingCellCount s + 1
     \<and> w4 (positionAndMass (correctedCell newCell)) = 1
     \<and> correctedCell newCell = newCell\<lparr>positionAndMass :=
           Vec4 (x4 (positionAndMass newCell)) (y4 (positionAndMass newCell))
             (z4 (positionAndMass newCell)) 1\<rparr>"
  using assms
  by (simp add: addCellToStagingBuffer_def modify_def correctedCell_def split: vec4.splits)

theorem addCellToStagingBuffer_forces_w_witness:
  "cellCount (initialManager smallConfig) + 1 \<le> MAX_CELLS smallConfig
   \<and> cpuCells (snd (addCellToStagingBuffer smallConfig sampleCell (initialManager smallConfig)))
       = [sampleCell\<lparr>positionAndMass := Vec4 1 2 3 1\<rparr>]"
proof -
  have h: "cellCount (initialManager smallConfig) + 1 \<le> MAX_CELLS smallConfig"
    by (simp add: initialManager_def smallConfig_def)
  show ?thesis
    using h addCellToStagingBuffer_forces_w [OF h, of sampleCell]
    by (simp add: initialManager_def sampleCell_def)
qed

text \<open>
  Claim C3 as stated fails: the caller's mass 5 in \<^verbatim>\<open>positionAndMass.w\<close> is not
  preserved, the stored record holds 1.
\<close>

theorem addCellToStagingBuffer_mass_counterexample:
  "w4 (positionAndMass sampleCell) = 5
   \<and> w4 (positionAndMass (last (cpuCells
        (snd (addCellToStagingBuffer smallConfig sampleCell (initialManager smallConfig)))))) = 1
   \<and> w4 (positionAndMass (last (cellStagingBuffer
        (snd (addCellToStagingBuffer smallConfig sampleCell (initialManager smallConfig)))))) = 1"
  by (simp add: addCellToStagingBuffer_def modify_def correctedCell_def smallConfig_def
      sampleCell_def initialManager_def)

text \<open>
  Claim C4. When \<open>cellCount + 1 > MAX_CELLS\<close>, \<^verbatim>\<open>addCellToStagingBuffer\<close> prints the
  warning and returns the state it was given: \<^verbatim>\<open>cellStagingBuffer\<close>, \<^verbatim>\<open>cpuCells\<close>,
  \<^verbatim>\<open>cpuPendingCellCount\<close> and everything else are unchanged, and nothing fails.
\<close>

theorem addCellToStagingBuffer_rejects:
  assumes "cellCount s + 1 > MAX_CELLS cfg"
  shows "addCellToStagingBuffer cfg newCell s = ([Print MaxCellsWarning], s)"
  using assms by (simp add: addCellToStagingBuffer_def emit_def)

theorem addCellToStagingBuffer_rejects_witness:
  "cellCount fullManager + 1 > MAX_CELLS smallConfig
   \<and> addCellToStagingBuffer smallConfig sampleCell fullManager
       = ([Print MaxCellsWarning], fullManager)"
proof -
  have h: "cellCount fullManager + 1 > MAX_CELLS smallConfig"
    by (simp add: fullManager_def smallConfig_def)
  show ?thesis
    using h addCellToStagingBuffer_rejects [OF h, of sampleCell] by simp
qed

section \<open>Addition apply\<close>

text \<open>
  Claim C5. Whatever the apply shader does to device memory, after \<^verbatim>\<open>applyCellAdditions\<close>
  the pending count (the second \<^verbatim>\<open>GLuint\<close> of the device counter pair) is zero and the
  staging mirror equals the device pair.
\<close>

theorem applyCellAdditions_zeroes_pending:
  "snd (gpuCellCountBuffer (device (snd (applyCellAdditions K cfg s)))) = 0
   \<and> stagingCellCountBuffer (snd (applyCellAdditions K cfg s))
       = gpuCellCountBuffer (device (snd (applyCellAdditions K cfg s)))"
  by (simp add: applyCellAdditions_def dispatch_def writeCounter_def copyCounters_def
      prog_defs split: prod.splits)

section \<open>Reset\<close>

lemma resetSimulation_state:
  "snd (resetSimulation s) =
     s\<lparr>cpuCells := [], cellStagingBuffer := [], cellCount := 0, cpuPendingCellCount := 0,
       gpuPendingCellCount := 0, bufferRotation := 0,
       selectedCell := (selectedCell s)\<lparr>cellIndex := - 1, isValid := False\<rparr>,
       isDraggingCell := False,
       device := (device s)\<lparr>
         gpuCellCountBuffer := (0, 0),
         cellBuffer := map3 (clearData zeroCell) (cellBuffer (device s)),
         instanceBuffer := clearData zeroVec4 (instanceBuffer (device s)),
         cellAdditionBuffer := clearData zeroCell (cellAdditionBuffer (device s)),
         gridBuffer := clearData 0 (gridBuffer (device s)),
         gridCountBuffer := clearData 0 (gridCountBuffer (device s)),
         gridOffsetBuffer := clearData 0 (gridOffsetBuffer (device s))\<rparr>,
       stagingCellCountBuffer := (0, 0)\<rparr>"
  by (cases "cellBuffer (device s)")
    (simp add: resetSimulation_def clearSelection_def clearCellBuffer_def clearDevice_def
      writeCounter_def copyCounters_def prog_defs upt_rec split: prod.splits)

lemma clearData_idem: "clearData z (clearData z xs) = clearData z xs"
  by (simp add: clearData_def)

lemma map3_clearData_idem:
  "map3 (clearData z) (map3 (clearData z) a) = map3 (clearData z) a"
  by (cases a) (simp add: clearData_idem)

text \<open>
  Claim C7. \<^verbatim>\<open>resetSimulation\<close> is idempotent: a second call leaves exactly the state of
  the first. That state has empty \<^verbatim>\<open>cpuCells\<close> and \<^verbatim>\<open>cellStagingBuffer\<close>, all counters zero,
  no selection, rotation 0, a zeroed device counter pair with the mirror in sync, and
  zero-filled cell, instance, addition-queue and grid buffers of unchanged size.
\<close>

theorem resetSimulation_idempotent:
  "snd (resetSimulation (snd (resetSimulation s))) = snd (resetSimulation s)
   \<and> cpuCells (snd (resetSimulation s)) = []
   \<and> cellStagingBuffer (snd (resetSimulation s)) = []
   \<and> cellCount (snd (resetSimulation s)) = 0
   \<and> cpuPendingCellCount (snd (resetSimulation s)) = 0
   \<and> gpuPendingCellCount (snd (resetSimulation s)) = 0
   \<and> bufferRotation (snd (resetSimulation s)) = 0
   \<and> \<not> isValid (selectedCell (snd (resetSimulation s)))
   \<and> \<not> isDraggingCell (snd (resetSimulation s))
   \<and> gpuCellCountBuffer (device (snd (resetSimulation s))) = (0, 0)
   \<and> stagingCellCountBuffer (snd (resetSimulation s)) = (0, 0)
   \<and> cellBuffer (device (snd (resetSimulation s)))
       = map3 (clearData zeroCell) (cellBuffer (device s))
   \<and> instanceBuffer (device (snd (resetSimulation s)))
       = clearData zeroVec4 (instanceBuffer (device s))
   \<and> cellAdditionBuffer (device (snd (resetSimulation s)))
       = clearData zeroCell (cellAdditionBuffer (device s))
   \<and> gridBuffer (device (snd (resetSimulation s))) = clearData 0 (gridBuffer (device s))
   \<and> gridCountBuffer (device (snd (resetSimulation s)))
       = clearData 0 (gridCountBuffer (device s))
   \<and> gridOffsetBuffer (device (snd (resetSimulation s)))
       = clearData 0 (gridOffsetBuffer (device s))"
  by (simp add: resetSimulation_state clearData_idem map3_clearData_idem)

section \<open>Traces of the frame driver\<close>

lemma dispatchOrder_append: "dispatchOrder (xs @ ys) = dispatchOrder xs @ dispatchOrder ys"
  by (simp add: dispatchOrder_def)

lemma dispatchOrder_Nil: "dispatchOrder [] = []"
  by (simp add: dispatchOrder_def)

lemma dispatchOrder_Cons: "dispatchOrder (a # xs) = shaderOf a @ dispatchOrder xs"
  by (simp add: dispatchOrder_def)

lemmas dispatchOrder_simps = dispatchOrder_append dispatchOrder_Nil dispatchOrder_Cons

lemma uniformsFor_append: "uniformsFor sh (xs @ ys) = uniformsFor sh xs @ uniformsFor sh ys"
  by (simp add: uniformsFor_def)

lemma uniformsFor_Nil: "uniformsFor sh [] = []"
  by (simp add: uniformsFor_def)

lemma uniformsFor_Cons: "uniformsFor sh (a # xs) = uniformsOf sh a @ uniformsFor sh xs"
  by (simp add: uniformsFor_def)

lemmas uniformsFor_simps = uniformsFor_append uniformsFor_Nil uniformsFor_Cons

lemma rotate_run: "fst (rotateBuffers s) = [RotateBuffers]"
  by (simp add: rotateBuffers_def run)

lemma copy_run: "fst (copyCounters s) = [CopyCounters]"
  by (simp add: copyCounters_def run)

lemma copy_state:
  "snd (copyCounters s) = s\<lparr>stagingCellCountBuffer := gpuCellCountBuffer (device s)\<rparr>"
  by (simp add: copyCounters_def run)

text \<open>The upload of staged cells dispatches nothing and leaves the host fields alone.\<close>

lemma staged_run:
  "dispatchOrder (fst (addStagedCellsToGPUBuffer cfg s)) = []
   \<and> uniformsFor sh (fst (addStagedCellsToGPUBuffer cfg s)) = []
   \<and> hostSame s (snd (addStagedCellsToGPUBuffer cfg s))"
  by (simp add: addStagedCellsToGPUBuffer_def addCellsToGPUBuffer_def uploadAdditions_def
      writeCounter_def copyCounters_def run dispatchOrder_simps uniformsFor_def hostSame_def
      Let_def split: option.splits)

lemma staged_cellCount: "cellCount (snd (addStagedCellsToGPUBuffer cfg s)) = cellCount s"
  using staged_run [of cfg s] by (simp add: hostSame_def)

lemma draggedIndex_hostSame: "hostSame s s' \<Longrightarrow> draggedIndex s' = draggedIndex s"
  by (simp add: hostSame_def draggedIndex_def)

lemma staged_dragged: "draggedIndex (snd (addStagedCellsToGPUBuffer cfg s)) = draggedIndex s"
  using staged_run [of cfg s] by (simp add: draggedIndex_hostSame)

lemma draggedIndex_update:
  "draggedIndex (s\<lparr>stagingCellCountBuffer := a\<rparr>) = draggedIndex s"
  "draggedIndex (s\<lparr>cellCount := b\<rparr>) = draggedIndex s"
  "draggedIndex (s\<lparr>gpuPendingCellCount := c\<rparr>) = draggedIndex s"
  by (simp_all add: draggedIndex_def)

lemma grid_run:
  "dispatchOrder (fst (updateSpatialGrid K cfg s))
     = (if cellCount s = 0 then [] else take 4 stageShaders)"
  by (simp add: updateSpatialGrid_def runGridClear_def runGridAssign_def runGridPrefixSum_def
      runGridInsert_def dispatch_def prog_defs dispatchOrder_def stageShaders_def)

lemma physics_run: "dispatchOrder (fst (runPhysicsCompute K cfg deltaTime s)) = [PhysicsShader]"
  by (simp add: runPhysicsCompute_def dispatch_def prog_defs dispatchOrder_def)

lemma update_run: "dispatchOrder (fst (runUpdateCompute K deltaTime s)) = [UpdateShader]"
  by (simp add: runUpdateCompute_def dispatch_def prog_defs dispatchOrder_def)

lemma internal_run:
  "dispatchOrder (fst (runInternalUpdateCompute K cfg deltaTime s)) = [InternalUpdateShader]"
  by (simp add: runInternalUpdateCompute_def dispatch_def prog_defs dispatchOrder_def)

lemma apply_run: "dispatchOrder (fst (applyCellAdditions K cfg s)) = [CellAdditionShader]"
  by (simp add: applyCellAdditions_def dispatch_def writeCounter_def copyCounters_def
      prog_defs dispatchOrder_def)

lemma grid_uniforms:
  "uniformsFor PhysicsShader (fst (updateSpatialGrid K cfg s)) = []
   \<and> uniformsFor UpdateShader (fst (updateSpatialGrid K cfg s)) = []
   \<and> draggedIndex (snd (updateSpatialGrid K cfg s)) = draggedIndex s"
  by (auto simp add: updateSpatialGrid_def runGridClear_def runGridAssign_def
      runGridPrefixSum_def runGridInsert_def dispatch_def prog_defs uniformsFor_def
      draggedIndex_def)

lemma physics_uniforms:
  "map draggedUniform (uniformsFor PhysicsShader (fst (runPhysicsCompute K cfg deltaTime s)))
     = [Some (IntU (draggedIndex s))]
   \<and> uniformsFor UpdateShader (fst (runPhysicsCompute K cfg deltaTime s)) = []
   \<and> draggedIndex (snd (runPhysicsCompute K cfg deltaTime s)) = draggedIndex s"
  by (auto simp add: runPhysicsCompute_def dispatch_def prog_defs uniformsFor_def
      draggedIndex_def draggedUniform_def)

lemma update_uniforms:
  "map draggedUniform (uniformsFor UpdateShader (fst (runUpdateCompute K deltaTime s)))
     = [Some (IntU (draggedIndex s))]
   \<and> uniformsFor PhysicsShader (fst (runUpdateCompute K deltaTime s)) = []"
  by (auto simp add: runUpdateCompute_def dispatch_def prog_defs uniformsFor_def
      draggedIndex_def draggedUniform_def)

lemma internal_uniforms:
  "uniformsFor PhysicsShader (fst (runInternalUpdateCompute K cfg deltaTime s)) = []
   \<and> uniformsFor UpdateShader (fst (runInternalUpdateCompute K cfg deltaTime s)) = []"
  by (simp add: runInternalUpdateCompute_def dispatch_def prog_defs uniformsFor_def)

lemma apply_uniforms:
  "uniformsFor PhysicsShader (fst (applyCellAdditions K cfg s)) = []
   \<and> uniformsFor UpdateShader (fst (applyCellAdditions K cfg s)) = []"
  by (simp add: applyCellAdditions_def dispatch_def writeCounter_def copyCounters_def
      prog_defs uniformsFor_def)

text \<open>The dispatches of one frame, in order, and its last action.\<close>

lemma frame_dispatchOrder:
  "dispatchOrder (fst (updateCells K cfg dt s)) =
     (if 0 < sint (fst (gpuCellCountBuffer (device s))) then stageShaders else [])
       @ [CellAdditionShader]"
  by (simp add: updateCells_def run dispatchOrder_simps staged_run grid_run physics_run
      update_run internal_run stageShaders_def apply_run rotate_run copy_run copy_state
      staged_cellCount Let_def)

lemma frame_last: "last (fst (updateCells K cfg dt s)) = RotateBuffers"
  by (simp add: updateCells_def run rotate_run Let_def)

text \<open>The dragged index every physics and integration dispatch of a frame is given.\<close>

lemma frame_uniforms:
  "map draggedUniform (uniformsFor PhysicsShader (fst (updateCells K cfg dt s)))
     = (if 0 < sint (fst (gpuCellCountBuffer (device s)))
        then [Some (IntU (draggedIndex s))] else [])
   \<and> map draggedUniform (uniformsFor UpdateShader (fst (updateCells K cfg dt s)))
     = (if 0 < sint (fst (gpuCellCountBuffer (device s)))
        then [Some (IntU (draggedIndex s))] else [])"
  by (simp add: updateCells_def run uniformsFor_simps staged_run staged_dragged
      staged_cellCount grid_uniforms physics_uniforms update_uniforms internal_uniforms
      apply_uniforms rotate_run copy_run copy_state draggedIndex_update Let_def)

text \<open>
  Claim C2, as amended. In every frame the dispatches are, in this order, the four grid
  stages, physics, integration and the internal update when the live count read at the
  start of the frame is positive (none of them otherwise), followed by exactly one
  addition-apply dispatch, which runs whatever pending count the previous frame left; the
  rotation of the buffers is the last action of the frame.
\<close>

theorem updateCells_apply_after_stages:
  "dispatchOrder (fst (updateCells K cfg dt s)) =
     (if 0 < sint (fst (gpuCellCountBuffer (device s))) then stageShaders else [])
       @ [CellAdditionShader]
   \<and> last (fst (updateCells K cfg dt s)) = RotateBuffers"
  by (simp add: frame_dispatchOrder frame_last)

text \<open>
  Claim C2 as stated fails: a frame that starts with a pending count of 1 (and one live
  cell) dispatches the seven stages first and the addition apply after them.
\<close>

theorem updateCells_apply_first_counterexample:
  "0 < sint (snd (gpuCellCountBuffer (device pendingState)))
   \<and> \<not> applyBeforeStages (fst (updateCells idleKernels smallConfig (1 / 60) pendingState))
   \<and> dispatchOrder (fst (updateCells idleKernels smallConfig (1 / 60) pendingState))
       = stageShaders @ [CellAdditionShader]"
proof -
  have "gpuCellCountBuffer (device pendingState) = (1, 1)"
    by (simp add: pendingState_def)
  then show ?thesis
    using frame_dispatchOrder [of idleKernels smallConfig "1 / 60" pendingState]
    by (simp add: applyBeforeStages_def stageShaders_def)
qed

section \<open>The batch upload and the capacity of the addition queue\<close>

lemma cdiv_4_2: "cdiv 4 2 = 2"
  by (simp add: cdiv_def)

lemma initial_queue:
  "cellAdditionBuffer (device (initialManager smallConfig)) = [zeroCell, zeroCell]"
  by (simp add: initialManager_def initialDevice_def smallConfig_def cdiv_4_2 numeral_2_eq_2)

text \<open>
  Claim C1 fails on the code. With \<^verbatim>\<open>MAX_CELLS = 4\<close> the addition queue holds 2 records.
  A batch of 3 cells on a fresh manager passes the only guard (\<open>0 + 3 \<le> 4\<close>), the upload
  of 3 records at offset 0 runs past the end of the queue (\<^verbatim>\<open>GL_INVALID_VALUE\<close>), and
  the pending count becomes 3 on the host and on the device, above \<^verbatim>\<open>MAX_CELLS / 2\<close>.
\<close>

theorem addCellsToGPUBuffer_overflows_queue:
  "length (cellAdditionBuffer (device (initialManager smallConfig)))
     = nat (cdiv (MAX_CELLS smallConfig) 2)
   \<and> cdiv (MAX_CELLS smallConfig) 2 = 2
   \<and> gpuPendingCellCount (snd (addCellsToGPUBuffer smallConfig
        [sampleCell, sampleCell, sampleCell] (initialManager smallConfig))) = 3
   \<and> snd (gpuCellCountBuffer (device (snd (addCellsToGPUBuffer smallConfig
        [sampleCell, sampleCell, sampleCell] (initialManager smallConfig))))) = 3
   \<and> fst (addCellsToGPUBuffer smallConfig [sampleCell, sampleCell, sampleCell]
        (initialManager smallConfig))
      = [Print (AddingCells 3 0 3), GlInvalidValue CellAdditionBuffer 0 3,
         BufferSubData GpuCellCountBuffer 1 1, CopyCounters]"
proof -
  have m: "MAX_CELLS smallConfig = 4"
    by (simp add: smallConfig_def)
  have c: "cellCount (initialManager smallConfig) = 0"
    "gpuPendingCellCount (initialManager smallConfig) = 0"
    by (simp_all add: initialManager_def)
  show ?thesis
    by (simp add: addCellsToGPUBuffer_def uploadAdditions_def subData_def writeCounter_def
      copyCounters_def prog_defs m c initial_queue cdiv_4_2 Let_def split: prod.splits)
qed

lemma stagedThree_state:
  "stagedThree = (initialManager smallConfig)
     \<lparr>cellStagingBuffer := replicate 3 (correctedCell sampleCell),
      cpuCells := replicate 3 (correctedCell sampleCell), cpuPendingCellCount := 3\<rparr>"
  by (simp add: stagedThree_def addCellToStagingBuffer_def modify_def initialManager_def
      smallConfig_def numeral_3_eq_3)

text \<open>
  The same overflow through the public path: three cells staged on a fresh manager, then
  one frame.
\<close>

lemma staged_batch_overflows_queue:
  "GlInvalidValue CellAdditionBuffer 0 3
     \<in> set (fst (updateCells idleKernels smallConfig (1 / 60) stagedThree))"
proof -
  have "GlInvalidValue CellAdditionBuffer 0 3
      \<in> set (fst (addStagedCellsToGPUBuffer smallConfig
           (stagedThree\<lparr>stagingCellCountBuffer := (0, 0), cellCount := 0,
              gpuPendingCellCount := 0\<rparr>)))"
    by (simp add: stagedThree_state addStagedCellsToGPUBuffer_def addCellsToGPUBuffer_def
      uploadAdditions_def subData_def run initialManager_def initialDevice_def
      smallConfig_def cdiv_4_2 numeral_2_eq_2 Let_def)
  moreover have "gpuCellCountBuffer (device stagedThree) = (0, 0)"
    "cpuPendingCellCount stagedThree = 3"
    by (simp_all add: stagedThree_state initialManager_def initialDevice_def)
  ultimately show ?thesis
    by (simp add: updateCells_def run copy_run copy_state Let_def)
qed

section \<open>The CPU mirror and the cell buffers\<close>

lemma subData_single:
  assumes "0 \<le> i"
  shows "(case subData xs i [c] of None \<Rightarrow> xs | Some buf \<Rightarrow> buf) = xs[nat i := c]"
proof (cases "nat i < length xs")
  case True
  with assms show ?thesis
    by (auto simp add: subData_def upd_conv_take_nth_drop)
next
  case False
  with assms show ?thesis
    by (auto simp add: subData_def list_update_beyond)
qed

lemma set3_get3: "set3 a b (get3 a b) = a"
  by (cases a) simp

lemma uploadCell_state:
  "snd (uploadCell b i c s) =
     s\<lparr>device := (device s)\<lparr>cellBuffer := set3 (cellBuffer (device s)) b
       (case subData (get3 (cellBuffer (device s)) b) i [c] of
          None \<Rightarrow> get3 (cellBuffer (device s)) b | Some buf \<Rightarrow> buf)\<rparr>\<rparr>"
  by (simp add: uploadCell_def set3_get3 split: option.splits)

text \<open>
  An upload of one record replaces slot \<open>i\<close> of the buffer; a slot beyond the capacity is
  not written (list update leaves the list alone there, as the refused GL call does).
\<close>

lemma uploadCell_update:
  "0 \<le> i \<Longrightarrow>
   snd (uploadCell b i c s) =
     s\<lparr>device := (device s)\<lparr>cellBuffer := set3 (cellBuffer (device s)) b
       ((get3 (cellBuffer (device s)) b)[nat i := c])\<rparr>\<rparr>"
  by (simp add: uploadCell_state subData_single)

lemma vectorSet_ok:
  "0 \<le> i \<Longrightarrow> nat i < length xs \<Longrightarrow> vectorSet xs i v = Inr (xs[nat i := v])"
  by (auto simp add: vectorSet_def)

lemma updateCellData_state:
  assumes "0 \<le> index" "index < cellCount s" "nat index < length (cpuCells s)"
  shows "\<exists>tr. updateCellData index newData s = Inr (tr,
     s\<lparr>cpuCells := (cpuCells s)[nat index := newData],
       selectedCell :=
         (if isValid (selectedCell s) \<and> cellIndex (selectedCell s) = index
          then (selectedCell s)\<lparr>cellData := newData\<rparr> else selectedCell s),
       device := (device s)\<lparr>cellBuffer :=
         (case cellBuffer (device s) of Array3 b0 b1 b2 \<Rightarrow>
            Array3 (b0[nat index := newData]) (b1[nat index := newData]) b2)\<rparr>\<rparr>)"
proof -
  define s2 where "s2 = (if isValid (selectedCell s) \<and> cellIndex (selectedCell s) = index
      then s\<lparr>cpuCells := (cpuCells s)[nat index := newData],
             selectedCell := (selectedCell s)\<lparr>cellData := newData\<rparr>\<rparr>
      else s\<lparr>cpuCells := (cpuCells s)[nat index := newData]\<rparr>)"
  let ?p = "seqs (map (\<lambda>i. uploadCell i index newData) [0..<2])"
  have r: "updateCellData index newData s = Inr (?p s2)"
    using assms by (simp add: updateCellData_def vectorSet_ok Let_def s2_def)
  have st: "snd (?p s2) = s2\<lparr>device := (device s2)\<lparr>cellBuffer :=
         (case cellBuffer (device s2) of Array3 b0 b1 b2 \<Rightarrow>
            Array3 (b0[nat index := newData]) (b1[nat index := newData]) b2)\<rparr>\<rparr>"
    using assms(1) by (cases "cellBuffer (device s2)") (simp add: upt_rec run uploadCell_update)
  have "?p s2 = (fst (?p s2), snd (?p s2))"
    by simp
  with r st have "updateCellData index newData s =
      Inr (fst (?p s2), s2\<lparr>device := (device s2)\<lparr>cellBuffer :=
         (case cellBuffer (device s2) of Array3 b0 b1 b2 \<Rightarrow>
            Array3 (b0[nat index := newData]) (b1[nat index := newData]) b2)\<rparr>\<rparr>)"
    by simp
  then show ?thesis
    by (auto simp add: s2_def)
qed

lemma uploadCell_ok:
  "0 \<le> i \<Longrightarrow> nat i < length (get3 (cellBuffer (device s)) b) \<Longrightarrow>
   uploadCell b i c s = ([BufferSubData (CellBuffer b) i 1],
      s\<lparr>device := (device s)\<lparr>cellBuffer := set3 (cellBuffer (device s)) b
           ((get3 (cellBuffer (device s)) b)[nat i := c])\<rparr>\<rparr>)"
  by (auto simp add: uploadCell_def subData_def upd_conv_take_nth_drop)

lemma drag_result:
  assumes "isValid (selectedCell s)" "cellIndex (selectedCell s) = i" "0 \<le> i"
    "nat i < length (cpuCells s)"
    "nat i < length (get3 (cellBuffer (device s)) 0)"
    "nat i < length (get3 (cellBuffer (device s)) 1)"
    "nat i < length (get3 (cellBuffer (device s)) 2)"
  shows "dragSelectedCell p s = Inr
     ([BufferSubData (CellBuffer 0) i 1, BufferSubData (CellBuffer 1) i 1,
       BufferSubData (CellBuffer 2) i 1],
      s\<lparr>cpuCells := (cpuCells s)[nat i := draggedCell p (cpuCells s ! nat i)],
        selectedCell := (selectedCell s)\<lparr>cellData := draggedCell p (cpuCells s ! nat i)\<rparr>,
        device := (device s)\<lparr>cellBuffer :=
          map3 (\<lambda>buf. buf[nat i := draggedCell p (cpuCells s ! nat i)])
            (cellBuffer (device s))\<rparr>\<rparr>)"
  using assms
  by (cases "cellBuffer (device s)")
    (simp add: dragSelectedCell_def vectorAt_def Let_def upt_rec seq_def skip_def uploadCell_ok)

text \<open>
  Where the mirror holds the index, \<^verbatim>\<open>updateCellData\<close> stores the record in
  \<^verbatim>\<open>cpuCells[index]\<close>, in the selection cache when that index is the selected one, and
  in slot \<open>index\<close> of \<^verbatim>\<open>cellBuffer[0]\<close> and \<^verbatim>\<open>cellBuffer[1]\<close>; \<^verbatim>\<open>cellBuffer[2]\<close>, every
  other slot, every other buffer and every other host field are unchanged. The drag path,
  in contrast, writes slot \<open>index\<close> of all three cell buffers.
\<close>

lemma updateCellData_within_mirror:
  assumes "0 \<le> index" "index < cellCount s" "nat index < length (cpuCells s)"
  shows "(\<exists>tr s'. updateCellData index newData s = Inr (tr, s')
       \<and> cpuCells s' = (cpuCells s)[nat index := newData]
       \<and> selectedCell s' =
           (if isValid (selectedCell s) \<and> cellIndex (selectedCell s) = index
            then (selectedCell s)\<lparr>cellData := newData\<rparr> else selectedCell s)
       \<and> get3 (cellBuffer (device s')) 0
           = (get3 (cellBuffer (device s)) 0)[nat index := newData]
       \<and> get3 (cellBuffer (device s')) 1
           = (get3 (cellBuffer (device s)) 1)[nat index := newData]
       \<and> get3 (cellBuffer (device s')) 2 = get3 (cellBuffer (device s)) 2
       \<and> device s' = (device s)\<lparr>cellBuffer := cellBuffer (device s')\<rparr>
       \<and> s' = s\<lparr>cpuCells := cpuCells s', selectedCell := selectedCell s',
                  device := device s'\<rparr>)
     \<and> (isValid (selectedCell s) \<and> cellIndex (selectedCell s) = index
          \<and> nat index < length (get3 (cellBuffer (device s)) 0)
          \<and> nat index < length (get3 (cellBuffer (device s)) 1)
          \<and> nat index < length (get3 (cellBuffer (device s)) 2)
        \<longrightarrow> (\<exists>tr s'. dragSelectedCell p s = Inr (tr, s')
              \<and> get3 (cellBuffer (device s')) 0 ! nat index
                  = draggedCell p (cpuCells s ! nat index)
              \<and> get3 (cellBuffer (device s')) 1 ! nat index
                  = draggedCell p (cpuCells s ! nat index)
              \<and> get3 (cellBuffer (device s')) 2 ! nat index
                  = draggedCell p (cpuCells s ! nat index)))"
proof (intro conjI impI)
  obtain tr where "updateCellData index newData s = Inr (tr,
     s\<lparr>cpuCells := (cpuCells s)[nat index := newData],
       selectedCell :=
         (if isValid (selectedCell s) \<and> cellIndex (selectedCell s) = index
          then (selectedCell s)\<lparr>cellData := newData\<rparr> else selectedCell s),
       device := (device s)\<lparr>cellBuffer :=
         (case cellBuffer (device s) of Array3 b0 b1 b2 \<Rightarrow>
            Array3 (b0[nat index := newData]) (b1[nat index := newData]) b2)\<rparr>\<rparr>)"
    using updateCellData_state [OF assms] by blast
  then show "\<exists>tr s'. updateCellData index newData s = Inr (tr, s')
       \<and> cpuCells s' = (cpuCells s)[nat index := newData]
       \<and> selectedCell s' =
           (if isValid (selectedCell s) \<and> cellIndex (selectedCell s) = index
            then (selectedCell s)\<lparr>cellData := newData\<rparr> else selectedCell s)
       \<and> get3 (cellBuffer (device s')) 0
           = (get3 (cellBuffer (device s)) 0)[nat index := newData]
       \<and> get3 (cellBuffer (device s')) 1
           = (get3 (cellBuffer (device s)) 1)[nat index := newData]
       \<and> get3 (cellBuffer (device s')) 2 = get3 (cellBuffer (device s)) 2
       \<and> device s' = (device s)\<lparr>cellBuffer := cellBuffer (device s')\<rparr>
       \<and> s' = s\<lparr>cpuCells := cpuCells s', selectedCell := selectedCell s',
                  device := device s'\<rparr>"
    by (cases "cellBuffer (device s)") simp
next
  assume h: "isValid (selectedCell s) \<and> cellIndex (selectedCell s) = index
          \<and> nat index < length (get3 (cellBuffer (device s)) 0)
          \<and> nat index < length (get3 (cellBuffer (device s)) 1)
          \<and> nat index < length (get3 (cellBuffer (device s)) 2)"
  then have "dragSelectedCell p s = Inr
     ([BufferSubData (CellBuffer 0) index 1, BufferSubData (CellBuffer 1) index 1,
       BufferSubData (CellBuffer 2) index 1],
      s\<lparr>cpuCells := (cpuCells s)[nat index := draggedCell p (cpuCells s ! nat index)],
        selectedCell := (selectedCell s)\<lparr>cellData := draggedCell p (cpuCells s ! nat index)\<rparr>,
        device := (device s)\<lparr>cellBuffer :=
          map3 (\<lambda>buf. buf[nat index := draggedCell p (cpuCells s ! nat index)])
            (cellBuffer (device s))\<rparr>\<rparr>)"
    using drag_result [of s index p] assms by simp
  with h show "\<exists>tr s'. dragSelectedCell p s = Inr (tr, s')
              \<and> get3 (cellBuffer (device s')) 0 ! nat index
                  = draggedCell p (cpuCells s ! nat index)
              \<and> get3 (cellBuffer (device s')) 1 ! nat index
                  = draggedCell p (cpuCells s ! nat index)
              \<and> get3 (cellBuffer (device s')) 2 ! nat index
                  = draggedCell p (cpuCells s ! nat index)"
    by (cases "cellBuffer (device s)") simp
qed

lemma draggingManager_facts:
  "isDraggingCell draggingManager" "isValid (selectedCell draggingManager)"
  "cellIndex (selectedCell draggingManager) = 0" "(0::int) \<le> 0"
  "nat 0 < length (cpuCells draggingManager)"
  "nat 0 < length (get3 (cellBuffer (device draggingManager)) 0)"
  "nat 0 < length (get3 (cellBuffer (device draggingManager)) 1)"
  "nat 0 < length (get3 (cellBuffer (device draggingManager)) 2)"
  "cellCount draggingManager = 1"
  "cpuCells draggingManager = [sampleCell]"
  "cellBuffer (device draggingManager)
     = Array3 (replicate 4 zeroCell) (replicate 4 zeroCell) (replicate 4 zeroCell)"
  by (simp_all add: draggingManager_def initialManager_def initialDevice_def smallConfig_def)

lemma updateCellData_within_mirror_example:
  "(0::int) \<le> 0 \<and> 0 < cellCount draggingManager \<and> nat 0 < length (cpuCells draggingManager)
   \<and> (\<exists>tr s'. updateCellData 0 zeroCell draggingManager = Inr (tr, s')
        \<and> cpuCells s' = [zeroCell]
        \<and> cellData (selectedCell s') = zeroCell
        \<and> get3 (cellBuffer (device s')) 2 = replicate 4 zeroCell)"
proof -
  have h: "(0::int) \<le> 0" "0 < cellCount draggingManager"
    "nat 0 < length (cpuCells draggingManager)"
    by (simp_all add: draggingManager_facts)
  show ?thesis
    using h updateCellData_within_mirror [OF h, of zeroCell "Vec3 0 0 0"]
    by (auto simp add: draggingManager_facts)
qed

text \<open>
  Where the index is out of range \<^verbatim>\<open>getCellData\<close> returns the zero-initialised cell and
  does not touch \<^verbatim>\<open>cpuCells\<close>; where it is in range and the mirror holds it, the stored
  cell is returned. The function only reads the state.
\<close>

lemma getCellData_within_mirror:
  "(index < 0 \<or> index \<ge> cellCount s \<longrightarrow> getCellData index s = Inr zeroCell)
   \<and> (0 \<le> index \<and> index < cellCount s \<and> index < int (length (cpuCells s))
        \<longrightarrow> getCellData index s = Inr (cpuCells s ! nat index))"
  by (auto simp add: getCellData_def vectorAt_def)

lemma getCellData_within_mirror_example:
  "getCellData (- 1) draggingManager = Inr zeroCell
   \<and> getCellData 0 draggingManager = Inr sampleCell
   \<and> getCellData 1 draggingManager = Inr zeroCell"
  using getCellData_within_mirror [of "- 1" draggingManager]
    getCellData_within_mirror [of 0 draggingManager]
    getCellData_within_mirror [of 1 draggingManager]
  by (simp add: draggingManager_facts)

subsection \<open>An index below the live count that the mirror does not hold\<close>

lemma writeCounter_state:
  "snd (writeCounter i v s) = s\<lparr>device := (device s)\<lparr>gpuCellCountBuffer :=
     (if i = 0 then (v, snd (gpuCellCountBuffer (device s)))
      else (fst (gpuCellCountBuffer (device s)), v))\<rparr>\<rparr>"
  by (simp add: writeCounter_def run split: prod.splits)

lemma apply_host:
  "cpuCells (snd (applyCellAdditions K cfg s)) = cpuCells s
   \<and> stagingCellCountBuffer (snd (applyCellAdditions K cfg s))
       = gpuCellCountBuffer (device (snd (applyCellAdditions K cfg s)))"
  by (simp add: applyCellAdditions_def dispatch_def run writeCounter_state copy_state)

lemma apply_counts:
  "gpuCellCountBuffer (device (snd (applyCellAdditions applyKernels cfg s)))
     = (fst (gpuCellCountBuffer (device s)) + snd (gpuCellCountBuffer (device s)), 0)"
  by (simp add: applyCellAdditions_def dispatch_def run writeCounter_state copy_state
      applyKernels_def getCellReadBuffer_def getCellWriteBuffer_def Let_def split: prod.splits)

lemma uploaded_state:
  "snd (addCellsToGPUBuffer smallConfig [sampleCell] (initialManager smallConfig)) =
     (initialManager smallConfig)
       \<lparr>gpuPendingCellCount := 1,
        device := (initialDevice smallConfig)
          \<lparr>cellAdditionBuffer := [sampleCell, zeroCell], gpuCellCountBuffer := (0, 1)\<rparr>,
        stagingCellCountBuffer := (0, 1)\<rparr>"
proof -
  have m: "MAX_CELLS smallConfig = 4"
    by (simp add: smallConfig_def)
  have c: "cellCount (initialManager smallConfig) = 0"
    "gpuPendingCellCount (initialManager smallConfig) = 0"
    "device (initialManager smallConfig) = initialDevice smallConfig"
    "cellAdditionBuffer (initialDevice smallConfig) = [zeroCell, zeroCell]"
    "gpuCellCountBuffer (initialDevice smallConfig) = (0, 0)"
    by (simp_all add: initialManager_def initialDevice_def smallConfig_def cdiv_4_2 numeral_2_eq_2)
  show ?thesis
    by (simp add: addCellsToGPUBuffer_def uploadAdditions_def subData_def writeCounter_def
      copyCounters_def prog_defs m c Let_def)
qed

lemma frame_without_stages:
  assumes "fst (gpuCellCountBuffer (device s)) = 0" "cpuPendingCellCount s = 0"
  shows "cellCount (snd (updateCells applyKernels cfg dt s))
           = sint (snd (gpuCellCountBuffer (device s)))
     \<and> cpuCells (snd (updateCells applyKernels cfg dt s)) = cpuCells s
     \<and> gpuCellCountBuffer (device (snd (updateCells applyKernels cfg dt s)))
           = (snd (gpuCellCountBuffer (device s)), 0)"
  using assms
  by (simp add: updateCells_def run copy_state rotateBuffers_def apply_host apply_counts Let_def)

lemma uploadedOne_counts:
  "cellCount uploadedOne = 1 \<and> cpuCells uploadedOne = []
   \<and> gpuCellCountBuffer (device uploadedOne) = (1, 0)"
  unfolding uploadedOne_def uploaded_state
  using frame_without_stages [of "(initialManager smallConfig)
       \<lparr>gpuPendingCellCount := 1,
        device := (initialDevice smallConfig)
          \<lparr>cellAdditionBuffer := [sampleCell, zeroCell], gpuCellCountBuffer := (0, 1)\<rparr>,
        stagingCellCountBuffer := (0, 1)\<rparr>" smallConfig "1 / 60"]
  by (simp add: initialManager_def)

text \<open>
  Claim C8 fails on the code. After one cell has been uploaded and admitted, index 0 is
  valid (\<open>0 \<le> 0 < cellCount = 1\<close>) but \<^verbatim>\<open>cpuCells\<close> is empty: the guard of
  \<^verbatim>\<open>updateCellData\<close> lets the index through and \<^verbatim>\<open>cpuCells[0] = newData\<close> writes outside
  the vector, instead of storing the record.
\<close>

theorem updateCellData_beyond_mirror:
  "0 \<le> (0::int) \<and> 0 < cellCount uploadedOne \<and> cpuCells uploadedOne = []
   \<and> updateCellData 0 sampleCell uploadedOne = Inl OutOfBounds"
  by (simp add: uploadedOne_counts updateCellData_def vectorSet_def)

text \<open>
  Claim C9 fails on the code. In the same state index 0 is in range, and
  \<^verbatim>\<open>getCellData\<close> reads \<^verbatim>\<open>cpuCells[0]\<close> of an empty vector instead of returning a stored
  cell.
\<close>

theorem getCellData_beyond_mirror:
  "0 \<le> (0::int) \<and> 0 < cellCount uploadedOne \<and> cpuCells uploadedOne = []
   \<and> getCellData 0 uploadedOne = Inl OutOfBounds"
  by (simp add: uploadedOne_counts getCellData_def vectorAt_def)

section \<open>Dragging\<close>

text \<open>
  Claim C6. While a stored cell is flagged as dragged (\<^verbatim>\<open>isDraggingCell\<close>, a valid
  selection whose index the mirror and the three cell buffers hold), a call of
  \<^verbatim>\<open>dragSelectedCell\<close> with position \<open>p\<close> leaves the cell with position \<open>p\<close> and velocity
  \<open>(0, 0, 0)\<close> in \<^verbatim>\<open>cpuCells\<close>, in the selection cache and in all three cell buffers, and
  keeps the flag, so the statement holds again for the next call. In the frame that
  follows, every physics and every integration dispatch is handed the index of that cell
  as \<^verbatim>\<open>u_draggedCellIndex\<close>.
\<close>

theorem dragSelectedCell_stasis:
  assumes "isDraggingCell s" "isValid (selectedCell s)" "cellIndex (selectedCell s) = i"
    "0 \<le> i" "nat i < length (cpuCells s)"
    "nat i < length (get3 (cellBuffer (device s)) 0)"
    "nat i < length (get3 (cellBuffer (device s)) 1)"
    "nat i < length (get3 (cellBuffer (device s)) 2)"
  shows "\<exists>tr s'. dragSelectedCell p s = Inr (tr, s')
     \<and> positionAndMass (cpuCells s' ! nat i)
         = Vec4 (x3 p) (y3 p) (z3 p) (w4 (positionAndMass (cpuCells s ! nat i)))
     \<and> x4 (velocity (cpuCells s' ! nat i)) = 0
     \<and> y4 (velocity (cpuCells s' ! nat i)) = 0
     \<and> z4 (velocity (cpuCells s' ! nat i)) = 0
     \<and> get3 (cellBuffer (device s')) 0 ! nat i = cpuCells s' ! nat i
     \<and> get3 (cellBuffer (device s')) 1 ! nat i = cpuCells s' ! nat i
     \<and> get3 (cellBuffer (device s')) 2 ! nat i = cpuCells s' ! nat i
     \<and> cellData (selectedCell s') = cpuCells s' ! nat i
     \<and> isDraggingCell s' \<and> isValid (selectedCell s') \<and> cellIndex (selectedCell s') = i
     \<and> length (cpuCells s') = length (cpuCells s)
     \<and> map3 length (cellBuffer (device s')) = map3 length (cellBuffer (device s))
     \<and> draggedIndex s' = i
     \<and> map draggedUniform (uniformsFor PhysicsShader (fst (updateCells K cfg dt s')))
         = (if 0 < sint (fst (gpuCellCountBuffer (device s'))) then [Some (IntU i)] else [])
     \<and> map draggedUniform (uniformsFor UpdateShader (fst (updateCells K cfg dt s')))
         = (if 0 < sint (fst (gpuCellCountBuffer (device s'))) then [Some (IntU i)] else [])"
  using assms
  by (cases "cellBuffer (device s)")
    (simp add: drag_result [OF assms(2-8)] frame_uniforms draggedIndex_def draggedCell_def)

theorem dragSelectedCell_stasis_witness:
  "isDraggingCell draggingManager \<and> isValid (selectedCell draggingManager)
   \<and> (\<exists>tr s'. dragSelectedCell (Vec3 7 8 9) draggingManager = Inr (tr, s')
        \<and> positionAndMass (cpuCells s' ! 0) = Vec4 7 8 9 5
        \<and> x4 (velocity (cpuCells s' ! 0)) = 0
        \<and> y4 (velocity (cpuCells s' ! 0)) = 0
        \<and> z4 (velocity (cpuCells s' ! 0)) = 0
        \<and> get3 (cellBuffer (device s')) 2 ! 0 = cpuCells s' ! 0
        \<and> draggedIndex s' = 0)"
proof -
  have c: "cpuCells draggingManager ! 0 = sampleCell"
    by (simp add: draggingManager_facts)
  obtain tr s' where r: "dragSelectedCell (Vec3 7 8 9) draggingManager = Inr (tr, s')"
    and p: "positionAndMass (cpuCells s' ! nat 0)
         = Vec4 (x3 (Vec3 7 8 9)) (y3 (Vec3 7 8 9)) (z3 (Vec3 7 8 9))
             (w4 (positionAndMass (cpuCells draggingManager ! nat 0)))"
    and v: "x4 (velocity (cpuCells s' ! nat 0)) = 0" "y4 (velocity (cpuCells s' ! nat 0)) = 0"
       "z4 (velocity (cpuCells s' ! nat 0)) = 0"
    and b: "get3 (cellBuffer (device s')) 2 ! nat 0 = cpuCells s' ! nat 0"
    and d: "draggedIndex s' = 0"
    using dragSelectedCell_stasis [OF draggingManager_facts(1-8),
        of "Vec3 7 8 9" idleKernels smallConfig 1]
    by blast
  show ?thesis
    using draggingManager_facts(1,2) r p v b d by (simp add: c sampleCell_def)
qed

end
